theory Spec2Isabelle
  imports Main
begin

section \<open>Python strings, slices and exceptions\<close>

text \<open>
  The script \<^verbatim>\<open>wmts_to_geotiff.py\<close> is one function, \<^verbatim>\<open>main\<close>, that glues four
  libraries together. The embedding keeps the script's own logic (string building, slicing,
  list collection, the two loops, the early exits and the \<^verbatim>\<open>try\<close>/\<^verbatim>\<open>except\<close>) and takes
  every library call as a field of an environment record that returns either an exception
  or a value.
\<close>

definition newline :: string where
  "newline = [CHR 0x0A]"

text \<open>\<^verbatim>\<open>sep.join(xs)\<close>\<close>

fun py_join :: "string \<Rightarrow> string list \<Rightarrow> string" where
  "py_join sep [] = []"
| "py_join sep [x] = x"
| "py_join sep (x # y # ys) = x @ sep @ py_join sep (y # ys)"

text \<open>\<^verbatim>\<open>xs[:k]\<close>: a negative bound counts from the end, and every bound is clamped.\<close>

definition py_slice_to :: "'a list \<Rightarrow> int \<Rightarrow> 'a list" where
  "py_slice_to xs k =
     (if k < 0 then take (nat (int (length xs) + k)) xs else take (nat k) xs)"

text \<open>\<^verbatim>\<open>s.split(c)\<close> for a one-character separator: never the empty list.\<close>

fun py_split :: "char \<Rightarrow> string \<Rightarrow> string list" where
  "py_split c [] = [[]]"
| "py_split c (x # xs) =
     (if x = c then [] # py_split c xs
      else (case py_split c xs of [] \<Rightarrow> [[x]] | y # ys \<Rightarrow> (x # y) # ys))"

definition startswith :: "string \<Rightarrow> string \<Rightarrow> bool" where
  "startswith s p = (take (length p) s = p)"

definition endswith :: "string \<Rightarrow> string \<Rightarrow> bool" where
  "endswith s suf = (length suf \<le> length s \<and> drop (length s - length suf) s = suf)"

text \<open>\<^verbatim>\<open>s.replace(c, '')\<close> for a one-character \<^verbatim>\<open>c\<close>.\<close>

definition replace_char_empty :: "char \<Rightarrow> string \<Rightarrow> string" where
  "replace_char_empty c s = filter (\<lambda>x. x \<noteq> c) s"

text \<open>\<^verbatim>\<open>os.path.join(a, b)\<close> on POSIX.\<close>

definition os_path_join :: "string \<Rightarrow> string \<Rightarrow> string" where
  "os_path_join a b =
     (if startswith b ''/'' then b
      else if a = [] \<or> endswith a ''/'' then a @ b
      else a @ ''/'' @ b)"

text \<open>\<^verbatim>\<open>str(n)\<close> for an integer.\<close>

fun str_nat :: "nat \<Rightarrow> string" where
  "str_nat n =
     (if n < 10 then [''0123456789'' ! n]
      else str_nat (n div 10) @ [''0123456789'' ! (n mod 10)])"

definition str_int :: "int \<Rightarrow> string" where
  "str_int i = (if i < 0 then ''-'' @ str_nat (nat (- i)) else str_nat (nat i))"

text \<open>
  \<^verbatim>\<open>repr(s)\<close> of a string of ASCII characters: the quote is the double quote only when the
  string holds a single quote and no double quote; the quote and the backslash are escaped,
  tab, newline and carriage return are written with their letter, other control characters
  in hexadecimal.
\<close>

definition repr_quote :: "string \<Rightarrow> char" where
  "repr_quote s = (if CHR 0x27 \<in> set s \<and> CHR 0x22 \<notin> set s then CHR 0x22 else CHR 0x27)"

definition repr_char :: "char \<Rightarrow> char \<Rightarrow> string" where
  "repr_char qu c =
     (if c = qu \<or> c = CHR 0x5C then [CHR 0x5C, c]
      else if c = CHR 0x09 then [CHR 0x5C, CHR ''t'']
      else if c = CHR 0x0A then [CHR 0x5C, CHR ''n'']
      else if c = CHR 0x0D then [CHR 0x5C, CHR ''r'']
      else if (of_char c :: nat) < 32 \<or> c = CHR 0x7F then
        [CHR 0x5C, CHR ''x'', ''0123456789abcdef'' ! ((of_char c :: nat) div 16),
         ''0123456789abcdef'' ! ((of_char c :: nat) mod 16)]
      else [c])"

definition repr_str :: "string \<Rightarrow> string" where
  "repr_str s = [repr_quote s] @ concat (map (repr_char (repr_quote s)) s) @ [repr_quote s]"

text \<open>
  The exceptions of the model are those that derive from \<^verbatim>\<open>Exception\<close>: the two the
  script's own indexing can raise, and \<open>Raised m\<close> for such an exception raised by a
  library call, \<open>m\<close> being its \<^verbatim>\<open>str()\<close>. \<^verbatim>\<open>sys.exit(n)\<close> raises \<^verbatim>\<open>SystemExit\<close>,
  which does not derive from \<^verbatim>\<open>Exception\<close>.
\<close>

datatype exn = IndexError | KeyError string | Raised string

fun str_exn :: "exn \<Rightarrow> string" where
  "str_exn IndexError = ''list index out of range''"
| "str_exn (KeyError k) = repr_str k"
| "str_exn (Raised m) = m"

datatype abort = Exception exn | SystemExit int

text \<open>\<^verbatim>\<open>xs[0]\<close> and \<^verbatim>\<open>d[k]\<close>\<close>

definition py_first :: "'a list \<Rightarrow> exn + 'a" where
  "py_first xs = (case xs of [] \<Rightarrow> Inl IndexError | x # _ \<Rightarrow> Inr x)"

definition dict_get :: "(string \<rightharpoonup> 'a) \<Rightarrow> string \<Rightarrow> exn + 'a" where
  "dict_get d k = (case d k of None \<Rightarrow> Inl (KeyError k) | Some v \<Rightarrow> Inr v)"

section \<open>The data of the libraries, as the script reads it\<close>

type_synonym 'f bbox = "'f \<times> 'f \<times> 'f \<times> 'f"

text \<open>A WMTS layer, a tile matrix set and the service (the attributes the script reads).\<close>

record layer =
  layer_title :: string
  layer_tilematrixsets :: "string list"
  formats :: "string list"

record 'f tile_matrix_set =
  tms_title :: string
  resolutions :: "'f list"
  bboxWGS84 :: "'f bbox"

record 'f wmts_service =
  contents :: "string \<rightharpoonup> layer"
  tilematrixsets :: "string \<rightharpoonup> 'f tile_matrix_set"

text \<open>The seeding configuration object: its caches and its coverage (an opaque object).\<close>

record 'o seed_conf =
  caches :: "string \<rightharpoonup> (string \<rightharpoonup> 'o)"
  coverage :: 'o

record coverage_information =
  ci_cache_name :: string
  ci_srs :: string
  ci_min_level :: int
  ci_max_level :: int
  ci_dry_run :: bool

text \<open>
  The seed directive \<^verbatim>\<open>{'seed_only': [{'cache_name': ...}], 'concurrency': 1}\<close>; an entry of
  \<open>seed_only\<close> is the value of its one key \<^verbatim>\<open>cache_name\<close>.
\<close>

record seed_directive =
  seed_only :: "string list"
  concurrency :: int

text \<open>
  Rasters. A window is an offset and a size; a block is the pixel array read for a window,
  addressed by row and column inside the window; the pixel value \<open>'v\<close> stands for the
  values of all bands at one position.
\<close>

record profile =
  driver :: string
  dtype :: string
  width :: nat
  height :: nat
  count :: nat
  crs :: string

record window =
  col_off :: nat
  row_off :: nat
  win_width :: nat
  win_height :: nat

type_synonym pos = "nat \<times> nat"
type_synonym 'v block = "pos \<Rightarrow> 'v"

record 'v warped_vrt =
  block_windows :: "window list"
  vrt_read :: "window \<Rightarrow> exn + 'v block"

record 'v dataset =
  meta :: profile
  ds_crs :: string
  WarpedVRT :: "string \<Rightarrow> string \<Rightarrow> exn + 'v warped_vrt"

record 'v raster =
  rprofile :: profile
  pixels :: "pos \<Rightarrow> 'v option"

text \<open>
  The file system as the seeding engine leaves it, with the raster library's view of it:
  \<open>walk\<close> yields \<^verbatim>\<open>(root, dirs, files)\<close> triples in traversal order; \<open>create_error\<close> and
  \<open>write_error\<close> say whether creating the output raster, or writing a window into a raster
  of a given profile, raises.
\<close>

record 'v filesystem =
  isdir :: "string \<Rightarrow> bool"
  walk :: "string \<Rightarrow> (string \<times> string list \<times> string list) list"
  rasterio_open :: "string \<Rightarrow> exn + 'v dataset"
  create_error :: "string \<Rightarrow> profile \<Rightarrow> string option"
  write_error :: "profile \<Rightarrow> window \<Rightarrow> string option"

text \<open>
  The environment: one field per library call of the script. \<open>'f\<close> is the type of floats
  (only printed, never computed with), \<open>'o\<close> the type of the mapping library's opaque objects
  (parsed document, configuration, grid, coverage), \<open>'v\<close> the type of pixel values.
\<close>

record ('f, 'o, 'v) env =
  str_float :: "'f \<Rightarrow> string"
  str_bbox :: "'f bbox \<Rightarrow> string"
  WebMapTileService :: "string \<Rightarrow> exn + 'f wmts_service"
  open_error :: "string \<Rightarrow> string \<Rightarrow> string option"
  load_default_config :: "exn + unit"
  yaml_load :: "string \<Rightarrow> exn + 'o"
  ProxyConfiguration :: "'o \<Rightarrow> bool \<Rightarrow> bool \<Rightarrow> string \<Rightarrow> exn + 'o"
  get_seed_conf :: "'o \<Rightarrow> exn + 'o seed_conf"
  TileGrid :: "'o \<Rightarrow> exn + 'o"
  extent_to_grid_coverage :: "'f bbox \<Rightarrow> 'o \<Rightarrow> int \<Rightarrow> exn + 'o"
  merge_coverage :: "'o \<Rightarrow> 'o list \<Rightarrow> string \<Rightarrow> coverage_information \<Rightarrow> exn + 'o"
  makedirs_error :: "string \<Rightarrow> string option"
  seed :: "seed_directive \<Rightarrow> 'o seed_conf \<Rightarrow> exn + 'v filesystem"

text \<open>The command line of the script.\<close>

record 'f args =
  wmts_url :: string
  layer_name :: string
  zoom_level :: int
  bbox :: "'f bbox"
  mapproxy_config :: string
  output_file :: string
  srs :: string

section \<open>State, events and control flow\<close>

text \<open>
  What the process does to the outside is a list of events in time order, and the raster
  behind the output path (\<open>None\<close> until it is created).
\<close>

datatype event =
    LogError string
  | LogInfo string
  | FileWrite string string
  | FileRead string
  | MakeDirs string
  | SeedCall seed_directive
  | IsDir string
  | Walk string
  | RasterOpen string
  | RasterCreate string

record 'v state =
  events :: "event list"
  outfile :: "'v raster option"

definition init_state :: "'v state" where
  "init_state = \<lparr>events = [], outfile = None\<rparr>"

type_synonym ('a, 'v) prog = "'v state \<Rightarrow> (abort + 'a) \<times> 'v state"

definition ret :: "'a \<Rightarrow> ('a, 'v) prog" where
  "ret x = (\<lambda>s. (Inr x, s))"

definition bind :: "('a, 'v) prog \<Rightarrow> ('a \<Rightarrow> ('b, 'v) prog) \<Rightarrow> ('b, 'v) prog" where
  "bind m f = (\<lambda>s. case m s of (Inl e, s') \<Rightarrow> (Inl e, s') | (Inr x, s') \<Rightarrow> f x s')"

definition raise :: "exn \<Rightarrow> ('a, 'v) prog" where
  "raise e = (\<lambda>s. (Inl (Exception e), s))"

definition sys_exit :: "int \<Rightarrow> ('a, 'v) prog" where
  "sys_exit n = (\<lambda>s. (Inl (SystemExit n), s))"

text \<open>The result of a library call: its exception is raised, its value returned.\<close>

definition call :: "exn + 'a \<Rightarrow> ('a, 'v) prog" where
  "call r = (case r of Inl e \<Rightarrow> raise e | Inr x \<Rightarrow> ret x)"

definition fails_with :: "string option \<Rightarrow> (unit, 'v) prog" where
  "fails_with r = (case r of Some m \<Rightarrow> raise (Raised m) | None \<Rightarrow> ret ())"

definition emit :: "event \<Rightarrow> (unit, 'v) prog" where
  "emit ev = (\<lambda>s. (Inr (), s\<lparr>events := events s @ [ev]\<rparr>))"

text \<open>\<^verbatim>\<open>try: m except Exception as e: h e\<close>: \<^verbatim>\<open>SystemExit\<close> passes through.\<close>

definition try_except :: "('a, 'v) prog \<Rightarrow> (exn \<Rightarrow> ('a, 'v) prog) \<Rightarrow> ('a, 'v) prog" where
  "try_except m h =
     (\<lambda>s. case m s of
        (Inl (Exception e), s') \<Rightarrow> h e s'
      | (Inl (SystemExit n), s') \<Rightarrow> (Inl (SystemExit n), s')
      | (Inr x, s') \<Rightarrow> (Inr x, s'))"

definition logging_error :: "string \<Rightarrow> (unit, 'v) prog" where
  "logging_error msg = emit (LogError msg)"

definition logging_info :: "string \<Rightarrow> (unit, 'v) prog" where
  "logging_info msg = emit (LogInfo msg)"

section \<open>Metadata fetch (lines 29 to 36)\<close>

text \<open>
  The membership test of line 30 and the lookup of line 34 read the same dictionary, so
  they are one case distinction. The layer's first declared tile-matrix-set identifier is
  \<open>wmts_tile_matrix_set\<close>, the object stored under it is \<open>wmts_tile_matrix_set_obj\<close>.
\<close>

definition fetch_layer ::
  "('f, 'o, 'v) env \<Rightarrow> 'f args \<Rightarrow> (layer \<times> string \<times> 'f tile_matrix_set, 'v) prog" where
  "fetch_layer env a =
     bind (call (WebMapTileService env (wmts_url a))) (\<lambda>wmts.
       case contents wmts (layer_name a) of
         None \<Rightarrow>
           bind (logging_error
                   (''Layer \"'' @ layer_name a @ ''\" not found in provided WMTS service''))
             (\<lambda>_. sys_exit 1)
       | Some wmts_layer \<Rightarrow>
           bind (call (py_first (layer_tilematrixsets wmts_layer))) (\<lambda>wmts_tile_matrix_set.
           bind (call (dict_get (tilematrixsets wmts) wmts_tile_matrix_set))
             (\<lambda>wmts_tile_matrix_set_obj.
           ret (wmts_layer, wmts_tile_matrix_set, wmts_tile_matrix_set_obj))))"

section \<open>Configuration templating (lines 38 to 90)\<close>

definition user_bbox_str :: "('f, 'o, 'v) env \<Rightarrow> 'f args \<Rightarrow> string" where
  "user_bbox_str env a =
     (case bbox a of (x0, y0, x1, y1) \<Rightarrow> py_join '' '' (map (str_float env) [x0, y0, x1, y1]))"

text \<open>Line 78: the resolutions kept, and their rendering as a list of document lines.\<close>

definition config_resolutions :: "'f tile_matrix_set \<Rightarrow> int \<Rightarrow> 'f list" where
  "config_resolutions obj z = py_slice_to (resolutions obj) (z + 1)"

definition resolutions_str :: "('f, 'o, 'v) env \<Rightarrow> 'f tile_matrix_set \<Rightarrow> int \<Rightarrow> string" where
  "resolutions_str env obj z =
     ''      - '' @ py_join (newline @ ''      - '') (map (str_float env) (config_resolutions obj z))"

text \<open>\<^verbatim>\<open>wmts_layer.formats[0].split('/')[-1]\<close>\<close>

definition format_extension :: "layer \<Rightarrow> exn + string" where
  "format_extension l =
     (case py_first (formats l) of Inl e \<Rightarrow> Inl e | Inr f \<Rightarrow> Inr (last (py_split CHR ''/'' f)))"

text \<open>The keyword arguments of \<^verbatim>\<open>mapproxy_config_template.format(...)\<close>.\<close>

record template_fields =
  f_layer_name :: string
  f_title :: string
  f_tile_matrix_set_id :: string
  f_wmts_url :: string
  f_format_extension :: string
  f_bbox :: string
  f_user_bbox :: string
  f_resolutions_str :: string
  f_srs :: string

definition mapproxy_config_fields ::
  "('f, 'o, 'v) env \<Rightarrow> 'f args \<Rightarrow> layer \<Rightarrow> 'f tile_matrix_set \<Rightarrow> exn + template_fields" where
  "mapproxy_config_fields env a wmts_layer obj =
     (case format_extension wmts_layer of
        Inl e \<Rightarrow> Inl e
      | Inr ext \<Rightarrow>
          Inr \<lparr>f_layer_name = layer_name a,
               f_title = layer_title wmts_layer,
               f_tile_matrix_set_id = tms_title obj,
               f_wmts_url = wmts_url a,
               f_format_extension = ext,
               f_bbox = str_bbox env (bboxWGS84 obj),
               f_user_bbox = user_bbox_str env a,
               f_resolutions_str = resolutions_str env obj (zoom_level a),
               f_srs = srs a\<rparr>)"

text \<open>
  The names the template derives from its fields: the one cache, the one source, and the
  key of the grids section (also the grid of the cache and of the source).
\<close>

definition cache_key :: "template_fields \<Rightarrow> string" where
  "cache_key f = f_layer_name f @ ''_cache''"

definition source_key :: "template_fields \<Rightarrow> string" where
  "source_key f = f_layer_name f @ ''_source''"

definition grids_key :: "template_fields \<Rightarrow> string" where
  "grids_key f = f_tile_matrix_set_id f"

text \<open>The template of lines 40 to 77, line by line, with its fields filled in.\<close>

definition mapproxy_config_template :: "template_fields \<Rightarrow> string" where
  "mapproxy_config_template f = py_join newline
     ['''',
      ''services:'',
      ''  wmts:'',
      ''    md:'',
      ''      title: WMTS Layer Proxy'',
      '''',
      ''layers:'',
      ''  - name: '' @ f_layer_name f,
      ''    title: '' @ f_title f,
      ''    sources: ['' @ cache_key f @ '']'',
      '''',
      ''caches:'',
      ''  '' @ cache_key f @ '':'',
      ''    grids: ['' @ grids_key f @ '']'',
      ''    sources: ['' @ source_key f @ '']'',
      '''',
      ''sources:'',
      ''  '' @ source_key f @ '':'',
      ''    type: tile'',
      ''    grid: '' @ grids_key f,
      ''    url: '' @ f_wmts_url f,
      ''    extension: '' @ f_format_extension f,
      ''    wmts_layer: '' @ f_layer_name f,
      ''    wmts_tile_matrix_set: '' @ f_tile_matrix_set_id f,
      ''    coverage:'',
      ''      bbox: '' @ f_user_bbox f,
      ''      srs: '' @ [CHR 0x27] @ f_srs f @ [CHR 0x27],
      '''',
      ''grids:'',
      ''  '' @ grids_key f @ '':'',
      ''    srs: '' @ [CHR 0x27] @ f_srs f @ [CHR 0x27],
      ''    origin: '' @ [CHR 0x27] @ ''ul'' @ [CHR 0x27],
      ''    bbox: '' @ f_bbox f,
      ''    tile_size: [256, 256]'',
      ''    res_factor: 2'',
      ''    resolutions:'',
      f_resolutions_str f,
      ''    '']"

definition mapproxy_config_data ::
  "('f, 'o, 'v) env \<Rightarrow> 'f args \<Rightarrow> layer \<Rightarrow> 'f tile_matrix_set \<Rightarrow> exn + string" where
  "mapproxy_config_data env a wmts_layer obj =
     (case mapproxy_config_fields env a wmts_layer obj of
        Inl e \<Rightarrow> Inl e
      | Inr f \<Rightarrow> Inr (mapproxy_config_template f))"

section \<open>Writing and loading the configuration (lines 92 to 99)\<close>

definition write_config :: "('f, 'o, 'v) env \<Rightarrow> 'f args \<Rightarrow> string \<Rightarrow> (unit, 'v) prog" where
  "write_config env a data =
     bind (fails_with (open_error env (mapproxy_config a) ''w'')) (\<lambda>_.
     emit (FileWrite (mapproxy_config a) data))"

text \<open>The document read back at line 96 is the one written at line 93.\<close>

definition load_config :: "('f, 'o, 'v) env \<Rightarrow> 'f args \<Rightarrow> string \<Rightarrow> ('o seed_conf, 'v) prog" where
  "load_config env a data =
     bind (call (load_default_config env)) (\<lambda>config_dict.
     bind (fails_with (open_error env (mapproxy_config a) ''rt'')) (\<lambda>_.
     bind (emit (FileRead (mapproxy_config a))) (\<lambda>_.
     bind (call (yaml_load env data)) (\<lambda>config.
     bind (call (ProxyConfiguration env config True False (mapproxy_config a))) (\<lambda>configuration.
     call (get_seed_conf env configuration))))))"

section \<open>Coverage restriction and seed directive (lines 101 to 116)\<close>

definition coverage_info :: "'f args \<Rightarrow> coverage_information" where
  "coverage_info a =
     \<lparr>ci_cache_name = layer_name a,
      ci_srs = srs a,
      ci_min_level = zoom_level a,
      ci_max_level = zoom_level a,
      ci_dry_run = False\<rparr>"

definition restrict_coverage ::
  "('f, 'o, 'v) env \<Rightarrow> 'f args \<Rightarrow> 'f tile_matrix_set \<Rightarrow> 'o seed_conf \<Rightarrow> ('o seed_conf, 'v) prog"
  where
  "restrict_coverage env a obj sc =
     bind (call (dict_get (caches sc) (layer_name a))) (\<lambda>cache.
     bind (call (dict_get cache ''grid'')) (\<lambda>grid_conf.
     bind (call (TileGrid env grid_conf)) (\<lambda>grid.
     bind (call (extent_to_grid_coverage env (bboxWGS84 obj) grid (zoom_level a))) (\<lambda>cov.
     bind (call (merge_coverage env (coverage sc) [cov] ''intersect'' (coverage_info a)))
       (\<lambda>merged.
     ret (sc\<lparr>coverage := merged\<rparr>))))))"

definition seed_config :: "'f args \<Rightarrow> seed_directive" where
  "seed_config a = \<lparr>seed_only = [layer_name a], concurrency = 1\<rparr>"

text \<open>Everything before the \<^verbatim>\<open>try\<close> block: lines 29 to 116.\<close>

definition before_try ::
  "('f, 'o, 'v) env \<Rightarrow> 'f args \<Rightarrow> (layer \<times> 'o seed_conf \<times> seed_directive, 'v) prog" where
  "before_try env a =
     bind (fetch_layer env a) (\<lambda>(wmts_layer, wmts_tile_matrix_set, obj).
     bind (call (mapproxy_config_data env a wmts_layer obj)) (\<lambda>data.
     bind (write_config env a data) (\<lambda>_.
     bind (load_config env a data) (\<lambda>sc.
     bind (restrict_coverage env a obj sc) (\<lambda>sc'.
     ret (wmts_layer, sc', seed_config a))))))"

section \<open>Seeding and mosaicking: the body of the try block (lines 119 to 144)\<close>

definition source_path :: "'f args \<Rightarrow> string" where
  "source_path a =
     ''cache_data/'' @ layer_name a @ ''_cache_'' @ replace_char_empty CHR '':'' (srs a)
       @ ''/'' @ str_int (zoom_level a)"

text \<open>Lines 126 to 130: the two loops that fill \<open>input_file_list\<close>.\<close>

fun collect_in_dir :: "layer \<Rightarrow> string \<Rightarrow> string list \<Rightarrow> string list \<Rightarrow> exn + string list" where
  "collect_in_dir l root [] input_file_list = Inr input_file_list"
| "collect_in_dir l root (file # files) input_file_list =
     (case format_extension l of
        Inl e \<Rightarrow> Inl e
      | Inr ext \<Rightarrow>
          collect_in_dir l root files
            (if endswith file (''.'' @ ext) then input_file_list @ [os_path_join root file]
             else input_file_list))"

fun collect_files ::
  "layer \<Rightarrow> (string \<times> string list \<times> string list) list \<Rightarrow> string list \<Rightarrow> exn + string list" where
  "collect_files l [] input_file_list = Inr input_file_list"
| "collect_files l ((root, dirs, files) # rest) input_file_list =
     (case collect_in_dir l root files input_file_list of
        Inl e \<Rightarrow> Inl e
      | Inr input_file_list' \<Rightarrow> collect_files l rest input_file_list')"

text \<open>
  \<^verbatim>\<open>mosaic.write(src_array, window=window)\<close>: the block replaces the pixels of the window,
  every other pixel keeps its value; the raster's profile is not touched.
\<close>

definition inside :: "window \<Rightarrow> pos \<Rightarrow> bool" where
  "inside w p =
     (row_off w \<le> fst p \<and> fst p < row_off w + win_height w \<and>
      col_off w \<le> snd p \<and> snd p < col_off w + win_width w)"

definition write_window :: "'v block \<Rightarrow> window \<Rightarrow> 'v raster \<Rightarrow> 'v raster" where
  "write_window arr w r =
     r\<lparr>pixels := (\<lambda>p. if inside w p then Some (arr (fst p - row_off w, snd p - col_off w))
                     else pixels r p)\<rparr>"

definition mosaic_write ::
  "'v filesystem \<Rightarrow> profile \<Rightarrow> 'v block \<Rightarrow> window \<Rightarrow> (unit, 'v) prog" where
  "mosaic_write fs m arr w =
     bind (fails_with (write_error fs m w)) (\<lambda>_.
     (\<lambda>s. (Inr (), s\<lparr>outfile := map_option (write_window arr w) (outfile s)\<rparr>)))"

text \<open>Lines 140 to 142: the loop over the block windows of one reprojected tile.\<close>

fun mosaic_windows ::
  "'v filesystem \<Rightarrow> profile \<Rightarrow> 'v warped_vrt \<Rightarrow> window list \<Rightarrow> (unit, 'v) prog" where
  "mosaic_windows fs m vrt [] = ret ()"
| "mosaic_windows fs m vrt (w # windows) =
     bind (call (vrt_read vrt w)) (\<lambda>src_array.
     bind (mosaic_write fs m src_array w) (\<lambda>_.
     mosaic_windows fs m vrt windows))"

text \<open>Lines 136 to 142: the loop over the collected files.\<close>

fun mosaic_files ::
  "'v filesystem \<Rightarrow> string \<Rightarrow> profile \<Rightarrow> string list \<Rightarrow> (unit, 'v) prog" where
  "mosaic_files fs dst m [] = ret ()"
| "mosaic_files fs dst m (input_file # rest) =
     bind (emit (RasterOpen input_file)) (\<lambda>_.
     bind (call (rasterio_open fs input_file)) (\<lambda>src.
     bind (call (WarpedVRT src (ds_crs src) dst)) (\<lambda>vrt.
     bind (mosaic_windows fs m vrt (block_windows vrt)) (\<lambda>_.
     mosaic_files fs dst m rest))))"

definition create_raster :: "profile \<Rightarrow> (unit, 'v) prog" where
  "create_raster m = (\<lambda>s. (Inr (), s\<lparr>outfile := Some \<lparr>rprofile = m, pixels = (\<lambda>_. None)\<rparr>\<rparr>))"

text \<open>Lines 132 to 142.\<close>

definition build_mosaic :: "'v filesystem \<Rightarrow> 'f args \<Rightarrow> string list \<Rightarrow> (unit, 'v) prog" where
  "build_mosaic fs a input_file_list =
     bind (call (py_first input_file_list)) (\<lambda>first_file.
     bind (emit (RasterOpen first_file)) (\<lambda>_.
     bind (call (rasterio_open fs first_file)) (\<lambda>src.
     bind (emit (RasterCreate (output_file a))) (\<lambda>_.
     bind (fails_with (create_error fs (output_file a) (meta src))) (\<lambda>_.
     bind (create_raster (meta src)) (\<lambda>_.
     mosaic_files fs (srs a) (meta src) input_file_list))))))"

definition no_data_message :: "'f args \<Rightarrow> string" where
  "no_data_message a =
     ''No data found for layer '' @ layer_name a @ '' at zoom level '' @ str_int (zoom_level a)"

definition try_body ::
  "('f, 'o, 'v) env \<Rightarrow> 'f args \<Rightarrow> layer \<times> 'o seed_conf \<times> seed_directive \<Rightarrow> (unit, 'v) prog" where
  "try_body env a ctx =
     (case ctx of (wmts_layer, seed_conf, directive) \<Rightarrow>
     bind (emit (MakeDirs ''cache_data'')) (\<lambda>_.
     bind (fails_with (makedirs_error env ''cache_data'')) (\<lambda>_.
     bind (emit (SeedCall directive)) (\<lambda>_.
     bind (call (seed env directive seed_conf)) (\<lambda>fs.
     bind (emit (IsDir (source_path a))) (\<lambda>_.
     if \<not> isdir fs (source_path a) then
       bind (logging_error (no_data_message a)) (\<lambda>_. sys_exit 1)
     else
       bind (emit (Walk (source_path a))) (\<lambda>_.
       bind (call (collect_files wmts_layer (walk fs (source_path a)) [])) (\<lambda>input_file_list.
       bind (build_mosaic fs a input_file_list) (\<lambda>_.
       logging_info (''GeoTIFF generated successfully. Output: '' @ output_file a))))))))))"

text \<open>Lines 146 to 148.\<close>

definition handler :: "exn \<Rightarrow> (unit, 'v) prog" where
  "handler e =
     bind (logging_error (''Error during process: '' @ str_exn e)) (\<lambda>_. sys_exit 1)"

definition main :: "('f, 'o, 'v) env \<Rightarrow> 'f args \<Rightarrow> (unit, 'v) prog" where
  "main env a = bind (before_try env a) (\<lambda>ctx. try_except (try_body env a ctx) handler)"

text \<open>
  The status the process ends with: 0 when \<open>main\<close> returns, the argument of
  \<^verbatim>\<open>sys.exit\<close>, and 1 when an exception leaves \<open>main\<close> uncaught (the interpreter prints
  the traceback itself).
\<close>

fun exit_status :: "abort + unit \<Rightarrow> int" where
  "exit_status (Inr _) = 0"
| "exit_status (Inl (SystemExit n)) = n"
| "exit_status (Inl (Exception e)) = 1"

section \<open>The writes of the mosaic loop, in traversal order\<close>

text \<open>
  The blocks the two loops of lines 136 to 142 read, paired with their windows, in the
  order the loops visit them: file by file in list order, and inside a file in the order of
  \<open>block_windows\<close>. A file that cannot be opened or reprojected contributes nothing, and
  the blocks of a tile stop at the first read that raises, as the loop does.
\<close>

fun vrt_blocks :: "'v warped_vrt \<Rightarrow> window list \<Rightarrow> (window \<times> 'v block) list" where
  "vrt_blocks vrt [] = []"
| "vrt_blocks vrt (w # windows) =
     (case vrt_read vrt w of
        Inl e \<Rightarrow> []
      | Inr src_array \<Rightarrow> (w, src_array) # vrt_blocks vrt windows)"

definition file_blocks :: "'v filesystem \<Rightarrow> string \<Rightarrow> string \<Rightarrow> (window \<times> 'v block) list" where
  "file_blocks fs dst input_file =
     (case rasterio_open fs input_file of
        Inl e \<Rightarrow> []
      | Inr src \<Rightarrow>
          (case WarpedVRT src (ds_crs src) dst of
             Inl e \<Rightarrow> []
           | Inr vrt \<Rightarrow> vrt_blocks vrt (block_windows vrt)))"

definition tile_blocks ::
  "'v filesystem \<Rightarrow> string \<Rightarrow> string list \<Rightarrow> (window \<times> 'v block) list" where
  "tile_blocks fs dst files = concat (map (file_blocks fs dst) files)"

definition write_blocks :: "(window \<times> 'v block) list \<Rightarrow> 'v raster \<Rightarrow> 'v raster" where
  "write_blocks bs r = foldl (\<lambda>r' (w, arr). write_window arr w r') r bs"

section \<open>A sample service, configuration and tile cache\<close>

text \<open>
  A concrete environment to run the model on. Its floats are written as their decimal
  rendering; its opaque objects are terms that record which call built them from which
  arguments, so a result shows what the script passed to the library.
\<close>

datatype obj =
    Document string
  | Configuration obj string
  | GridConf string
  | Grid obj
  | Extent "string bbox" obj int
  | Merged obj "obj list" string coverage_information
  | NoCoverage

definition sample_layer :: layer where
  "sample_layer =
     \<lparr>layer_title = ''OpenStreetMap'',
      layer_tilematrixsets = [''GoogleMapsCompatible''],
      formats = [''image/png'']\<rparr>"

definition sample_tms :: "string tile_matrix_set" where
  "sample_tms =
     \<lparr>tms_title = ''Google Maps Compatible for the World'',
      resolutions = [''156543.03'', ''78271.51'', ''39135.75'', ''19567.87''],
      bboxWGS84 = (''-180.0'', ''-85.05'', ''180.0'', ''85.05'')\<rparr>"

definition sample_wmts :: "string wmts_service" where
  "sample_wmts =
     \<lparr>contents = [''osm'' \<mapsto> sample_layer],
      tilematrixsets = [''GoogleMapsCompatible'' \<mapsto> sample_tms]\<rparr>"

definition sample_profile :: profile where
  "sample_profile =
     \<lparr>driver = ''PNG'', dtype = ''uint8'', width = 256, height = 256, count = 3,
      crs = ''EPSG:3857''\<rparr>"

definition whole_tile :: window where
  "whole_tile = \<lparr>col_off = 0, row_off = 0, win_width = 256, win_height = 256\<rparr>"

definition sample_tile :: "string \<Rightarrow> string dataset" where
  "sample_tile v =
     \<lparr>meta = sample_profile,
      ds_crs = ''EPSG:3857'',
      WarpedVRT = (\<lambda>src_crs dst_crs.
        Inr \<lparr>block_windows = [whole_tile], vrt_read = (\<lambda>w. Inr (\<lambda>p. v))\<rparr>)\<rparr>"

definition sample_dir :: string where
  "sample_dir = ''cache_data/osm_cache_EPSG3857/2''"

definition sample_fs :: "string filesystem" where
  "sample_fs =
     \<lparr>isdir = (\<lambda>p. p = sample_dir),
      walk = (\<lambda>p. [(p, [''000''], []), (p @ ''/000'', [], [''1.png'', ''2.png'', ''notes.txt''])]),
      rasterio_open = (\<lambda>p.
        if p = sample_dir @ ''/000/1.png'' then Inr (sample_tile ''first'')
        else if p = sample_dir @ ''/000/2.png'' then Inr (sample_tile ''second'')
        else Inl (Raised ''not recognized as a supported file format'')),
      create_error = (\<lambda>p m. None),
      write_error = (\<lambda>m w. None)\<rparr>"

definition sample_conf :: "obj seed_conf" where
  "sample_conf =
     \<lparr>caches = [''osm'' \<mapsto> [''grid'' \<mapsto> GridConf ''GoogleMapsCompatible'']],
      coverage = NoCoverage\<rparr>"

definition sample_env :: "(string, obj, string) env" where
  "sample_env =
     \<lparr>str_float = (\<lambda>x. x),
      str_bbox = (\<lambda>(x0, y0, x1, y1). ''('' @ py_join '', '' [x0, y0, x1, y1] @ '')''),
      WebMapTileService = (\<lambda>url. Inr sample_wmts),
      open_error = (\<lambda>path mode. None),
      load_default_config = Inr (),
      yaml_load = (\<lambda>text. Inr (Document text)),
      ProxyConfiguration = (\<lambda>config seed_mode renderd config_file.
        Inr (Configuration config config_file)),
      get_seed_conf = (\<lambda>configuration. Inr sample_conf),
      TileGrid = (\<lambda>grid_conf. Inr (Grid grid_conf)),
      extent_to_grid_coverage = (\<lambda>b grid z. Inr (Extent b grid z)),
      merge_coverage = (\<lambda>prior covs mode info. Inr (Merged prior covs mode info)),
      makedirs_error = (\<lambda>path. None),
      seed = (\<lambda>directive conf. Inr sample_fs)\<rparr>"

definition sample_args :: "string args" where
  "sample_args =
     \<lparr>wmts_url = ''https://example.org/wmts'',
      layer_name = ''osm'',
      zoom_level = 2,
      bbox = (''16.0'', ''48.0'', ''16.5'', ''48.5''),
      mapproxy_config = ''mapproxy_config.yaml'',
      output_file = ''output.gtiff'',
      srs = ''EPSG:3857''\<rparr>"

text \<open>Variants of the sample: what the service, the seeding engine and the cache can do.\<close>

definition unreachable_env :: "(string, obj, string) env" where
  "unreachable_env =
     sample_env\<lparr>WebMapTileService := (\<lambda>url. Inl (Raised ''connection refused''))\<rparr>"

definition seed_fails_env :: "(string, obj, string) env" where
  "seed_fails_env =
     sample_env\<lparr>seed := (\<lambda>directive conf. Inl (Raised ''tile source timed out''))\<rparr>"

definition unseeded_env :: "(string, obj, string) env" where
  "unseeded_env =
     sample_env\<lparr>seed := (\<lambda>directive conf. Inr (sample_fs\<lparr>isdir := (\<lambda>p. False)\<rparr>))\<rparr>"

definition other_files_env :: "(string, obj, string) env" where
  "other_files_env =
     sample_env\<lparr>seed := (\<lambda>directive conf.
       Inr (sample_fs\<lparr>walk := (\<lambda>p. [(p, [''000''], []), (p @ ''/000'', [], [''notes.txt''])])\<rparr>))\<rparr>"

definition missing_layer_args :: "string args" where
  "missing_layer_args = sample_args\<lparr>layer_name := ''relief''\<rparr>"

definition sample_files :: "string list" where
  "sample_files = [sample_dir @ ''/000/1.png'', sample_dir @ ''/000/2.png'']"

definition blank_state :: "string state" where
  "blank_state =
     \<lparr>events = [], outfile = Some \<lparr>rprofile = sample_profile, pixels = (\<lambda>_. None)\<rparr>\<rparr>"

section \<open>Basic facts\<close>

lemmas monad_defs = bind_def ret_def raise_def sys_exit_def call_def fails_with_def emit_def
  logging_error_def logging_info_def try_except_def

lemma py_split_nonempty: "py_split c s \<noteq> []"
  by (induction s) (auto split: list.splits)

lemma py_slice_to_nonneg: "0 \<le> k \<Longrightarrow> py_slice_to xs k = take (nat k) xs"
  by (simp add: py_slice_to_def)



subsection \<open>The state after each stage before the try block\<close>

lemma fetch_layer_state: "fetch_layer env a s = (Inr x, s') \<Longrightarrow> s' = s"
  by (auto simp add: fetch_layer_def monad_defs split: sum.splits option.splits)

lemma write_config_state:
  "write_config env a data s = (Inr x, s') \<Longrightarrow>
     s' = s\<lparr>events := events s @ [FileWrite (mapproxy_config a) data]\<rparr>"
  by (auto simp add: write_config_def monad_defs split: option.splits)

lemma load_config_state:
  "load_config env a data s = (Inr x, s') \<Longrightarrow>
     s' = s\<lparr>events := events s @ [FileRead (mapproxy_config a)]\<rparr>"
  by (auto simp add: load_config_def monad_defs split: sum.splits option.splits)

lemma restrict_coverage_state: "restrict_coverage env a obj sc s = (r, s') \<Longrightarrow> s' = s"
  by (auto simp add: restrict_coverage_def monad_defs split: sum.splits)

text \<open>
  A run that reaches the try block has written the configuration document, read it back,
  and done nothing else to the outside.
\<close>

lemma before_try_events:
  assumes "before_try env a s = (Inr ctx, s')"
  shows "\<exists>data. s' = s\<lparr>events := events s @
           [FileWrite (mapproxy_config a) data, FileRead (mapproxy_config a)]\<rparr>"
proof -
  from assms obtain l i obj s1 where f: "fetch_layer env a s = (Inr (l, i, obj), s1)"
    by (auto simp add: before_try_def bind_def split: prod.splits sum.splits)
  then have s1: "s1 = s" by (rule fetch_layer_state)
  from assms f s1 obtain data where d: "mapproxy_config_data env a l obj = Inr data"
    by (cases "mapproxy_config_data env a l obj") (auto simp add: before_try_def monad_defs)
  from assms f s1 d obtain u s2 where w: "write_config env a data s = (Inr u, s2)"
    by (cases "write_config env a data s")
       (auto simp add: before_try_def monad_defs split: sum.splits)
  then have s2: "s2 = s\<lparr>events := events s @ [FileWrite (mapproxy_config a) data]\<rparr>"
    by (rule write_config_state)
  from assms f s1 d w obtain sc s3 where lc: "load_config env a data s2 = (Inr sc, s3)"
    by (cases "load_config env a data s2")
       (auto simp add: before_try_def monad_defs split: sum.splits)
  then have s3: "s3 = s2\<lparr>events := events s2 @ [FileRead (mapproxy_config a)]\<rparr>"
    by (rule load_config_state)
  from assms f s1 d w lc have "s' = s3"
    by (cases "restrict_coverage env a obj sc s3")
       (auto simp add: before_try_def monad_defs split: sum.splits dest: restrict_coverage_state)
  with s2 s3 show ?thesis by auto
qed


text \<open>
  When an exception ends the stages before the try block, the script has logged no error:
  the only log call there precedes the \<^verbatim>\<open>sys.exit\<close> of line 32.
\<close>

lemma before_try_exception_events:
  assumes "before_try env a s = (Inl (Exception e), s')"
  shows "\<exists>evs. events s' = events s @ evs \<and> (\<forall>m. LogError m \<notin> set evs)"
  using assms
  by (auto simp add: before_try_def fetch_layer_def write_config_def load_config_def
      restrict_coverage_def monad_defs
      split: sum.splits option.splits prod.splits)

subsection \<open>File collection\<close>

lemma collect_in_dir_none:
  assumes "format_extension l = Inr ext"
    and "\<forall>file \<in> set files. \<not> endswith file (''.'' @ ext)"
  shows "collect_in_dir l root files acc = Inr acc"
  using assms by (induction files arbitrary: acc) auto

lemma collect_files_none:
  assumes "format_extension l = Inr ext"
    and "\<forall>(root, dirs, files) \<in> set tree. \<forall>file \<in> set files. \<not> endswith file (''.'' @ ext)"
  shows "collect_files l tree acc = Inr acc"
  using assms
proof (induction tree arbitrary: acc)
  case Nil
  then show ?case by simp
next
  case (Cons t tree)
  obtain root dirs files where t: "t = (root, dirs, files)" by (cases t)
  with Cons.prems have "collect_in_dir l root files acc = Inr acc"
    by (intro collect_in_dir_none[where ext = ext]) auto
  with Cons t show ?case by simp
qed

subsection \<open>Window writes\<close>

lemma write_blocks_Nil [simp]: "write_blocks [] r = r"
  by (simp add: write_blocks_def)

lemma write_blocks_Cons [simp]:
  "write_blocks ((w, arr) # bs) r = write_blocks bs (write_window arr w r)"
  by (simp add: write_blocks_def)

lemma write_blocks_append [simp]:
  "write_blocks (bs @ cs) r = write_blocks cs (write_blocks bs r)"
  by (simp add: write_blocks_def)

lemma write_window_profile [simp]: "rprofile (write_window arr w r) = rprofile r"
  by (simp add: write_window_def)

lemma write_blocks_outside:
  "\<forall>(w', arr') \<in> set bs. \<not> inside w' p \<Longrightarrow> pixels (write_blocks bs r) p = pixels r p"
  by (induction bs arbitrary: r) (auto simp add: write_window_def)

lemma write_blocks_last:
  assumes "inside w p" and "\<forall>(w', arr') \<in> set later. \<not> inside w' p"
  shows "pixels (write_blocks (earlier @ (w, arr) # later) r) p =
           Some (arr (fst p - row_off w, snd p - col_off w))"
  using assms by (simp add: write_blocks_outside write_window_def)

text \<open>A loop that returns has performed exactly the writes of its blocks, in order.\<close>

lemma mosaic_windows_success:
  "mosaic_windows fs m vrt ws s = (Inr u, s') \<Longrightarrow>
     outfile s' = map_option (write_blocks (vrt_blocks vrt ws)) (outfile s) \<and>
     events s' = events s"
proof (induction ws arbitrary: s)
  case Nil
  then show ?case by (auto simp add: ret_def option.map_ident)
next
  case (Cons w ws)
  then show ?case
    by (auto simp add: monad_defs mosaic_write_def option.map_comp comp_def
        split: sum.splits option.splits prod.splits)
qed

lemma mosaic_files_success:
  "mosaic_files fs dst m files s = (Inr u, s') \<Longrightarrow>
     outfile s' = map_option (write_blocks (tile_blocks fs dst files)) (outfile s)"
proof (induction files arbitrary: s)
  case Nil
  then show ?case by (auto simp add: ret_def tile_blocks_def option.map_ident)
next
  case (Cons f files)
  show ?case
  proof (cases "rasterio_open fs f")
    case (Inl e)
    with Cons.prems show ?thesis by (simp add: monad_defs)
  next
    case (Inr src)
    show ?thesis
    proof (cases "WarpedVRT src (ds_crs src) dst")
      case (Inl e)
      with Inr Cons.prems show ?thesis by (simp add: monad_defs)
    next
      case vrt: (Inr vrt)
      let ?s0 = "s\<lparr>events := events s @ [RasterOpen f]\<rparr>"
      obtain r1 s1 where w: "mosaic_windows fs m vrt (block_windows vrt) ?s0 = (r1, s1)"
        by (cases "mosaic_windows fs m vrt (block_windows vrt) ?s0")
      with Inr vrt Cons.prems obtain u1 where r1: "r1 = Inr u1"
        by (cases r1) (auto simp add: monad_defs)
      from w r1 have o1: "outfile s1 =
          map_option (write_blocks (vrt_blocks vrt (block_windows vrt))) (outfile s)"
        using mosaic_windows_success[of fs m vrt "block_windows vrt" ?s0 u1 s1] by simp
      from Inr vrt Cons.prems w r1 have "mosaic_files fs dst m files s1 = (Inr u, s')"
        by (simp add: monad_defs)
      then have "outfile s' = map_option (write_blocks (tile_blocks fs dst files)) (outfile s1)"
        by (rule Cons.IH)
      with o1 Inr vrt show ?thesis
        by (simp add: tile_blocks_def file_blocks_def option.map_comp comp_def)
    qed
  qed
qed

text \<open>Whatever the loops do, and however they end, the profile of the output stays.\<close>

lemma mosaic_windows_profile:
  "map_option rprofile (outfile (snd (mosaic_windows fs m vrt ws s))) =
     map_option rprofile (outfile s)"
proof (induction ws arbitrary: s)
  case Nil
  then show ?case by (simp add: ret_def)
next
  case (Cons w ws)
  show ?case
  proof (cases "vrt_read vrt w")
    case (Inl e)
    then show ?thesis by (simp add: monad_defs)
  next
    case (Inr arr)
    show ?thesis
    proof (cases "write_error fs m w")
      case None
      with Inr show ?thesis
        by (simp add: monad_defs mosaic_write_def Cons.IH option.map_comp comp_def)
    next
      case (Some msg)
      with Inr show ?thesis by (simp add: monad_defs mosaic_write_def)
    qed
  qed
qed

lemma mosaic_files_profile:
  "map_option rprofile (outfile (snd (mosaic_files fs dst m files s))) =
     map_option rprofile (outfile s)"
proof (induction files arbitrary: s)
  case Nil
  then show ?case by (simp add: ret_def)
next
  case (Cons f files)
  show ?case
  proof (cases "rasterio_open fs f")
    case (Inl e)
    then show ?thesis by (simp add: monad_defs)
  next
    case (Inr src)
    show ?thesis
    proof (cases "WarpedVRT src (ds_crs src) dst")
      case (Inl e)
      with Inr show ?thesis by (simp add: monad_defs)
    next
      case vrt: (Inr vrt)
      let ?s0 = "s\<lparr>events := events s @ [RasterOpen f]\<rparr>"
      have p0: "map_option rprofile
                  (outfile (snd (mosaic_windows fs m vrt (block_windows vrt) ?s0)))
                = map_option rprofile (outfile s)"
        using mosaic_windows_profile[of fs m vrt "block_windows vrt" ?s0] by simp
      show ?thesis
      proof (cases "mosaic_windows fs m vrt (block_windows vrt) ?s0")
        case (Pair r1 s1)
        with p0 Inr vrt show ?thesis
          by (cases r1) (simp_all add: monad_defs Cons.IH)
      qed
    qed
  qed
qed

subsection \<open>The sample run up to the try block\<close>

lemma sample_env_calls:
  "WebMapTileService (sample_env\<lparr>seed := sd\<rparr>) = (\<lambda>url. Inr sample_wmts)"
  "open_error (sample_env\<lparr>seed := sd\<rparr>) = (\<lambda>path mode. None)"
  "load_default_config (sample_env\<lparr>seed := sd\<rparr>) = Inr ()"
  "yaml_load (sample_env\<lparr>seed := sd\<rparr>) = (\<lambda>text. Inr (Document text))"
  "ProxyConfiguration (sample_env\<lparr>seed := sd\<rparr>) =
     (\<lambda>config seed_mode renderd config_file. Inr (Configuration config config_file))"
  "get_seed_conf (sample_env\<lparr>seed := sd\<rparr>) = (\<lambda>configuration. Inr sample_conf)"
  "makedirs_error (sample_env\<lparr>seed := sd\<rparr>) = (\<lambda>path. None)"
  "seed (sample_env\<lparr>seed := sd\<rparr>) = sd"
  by (simp_all add: sample_env_def)

lemma sample_fields:
  "mapproxy_config_fields (sample_env\<lparr>seed := sd\<rparr>) sample_args sample_layer sample_tms =
     Inr \<lparr>f_layer_name = ''osm'',
          f_title = ''OpenStreetMap'',
          f_tile_matrix_set_id = ''Google Maps Compatible for the World'',
          f_wmts_url = ''https://example.org/wmts'',
          f_format_extension = ''png'',
          f_bbox = ''(-180.0, -85.05, 180.0, 85.05)'',
          f_user_bbox = ''16.0 48.0 16.5 48.5'',
          f_resolutions_str =
            ''      - 156543.03'' @ newline @ ''      - 78271.51'' @ newline @ ''      - 39135.75'',
          f_srs = ''EPSG:3857''\<rparr>"
  by (simp add: mapproxy_config_fields_def format_extension_def py_first_def sample_env_def
      sample_args_def sample_layer_def sample_tms_def user_bbox_str_def resolutions_str_def
      config_resolutions_def py_slice_to_def newline_def)

lemma sample_restrict:
  "restrict_coverage (sample_env\<lparr>seed := sd\<rparr>) sample_args sample_tms sample_conf s =
     (Inr (sample_conf\<lparr>coverage :=
        Merged NoCoverage
          [Extent (''-180.0'', ''-85.05'', ''180.0'', ''85.05'')
             (Grid (GridConf ''GoogleMapsCompatible'')) 2]
          ''intersect''
          \<lparr>ci_cache_name = ''osm'', ci_srs = ''EPSG:3857'', ci_min_level = 2,
           ci_max_level = 2, ci_dry_run = False\<rparr>\<rparr>), s)"
  by (simp add: restrict_coverage_def dict_get_def monad_defs coverage_info_def sample_env_def
      sample_args_def sample_tms_def sample_conf_def)

lemma sample_before_try:
  "fst (before_try (sample_env\<lparr>seed := sd\<rparr>) sample_args init_state) =
     Inr (sample_layer,
          sample_conf\<lparr>coverage :=
            Merged NoCoverage
              [Extent (''-180.0'', ''-85.05'', ''180.0'', ''85.05'')
                 (Grid (GridConf ''GoogleMapsCompatible'')) 2]
              ''intersect''
              \<lparr>ci_cache_name = ''osm'', ci_srs = ''EPSG:3857'', ci_min_level = 2,
               ci_max_level = 2, ci_dry_run = False\<rparr>\<rparr>,
          \<lparr>seed_only = [''osm''], concurrency = 1\<rparr>)"
proof -
  have "fetch_layer (sample_env\<lparr>seed := sd\<rparr>) sample_args init_state =
          (Inr (sample_layer, ''GoogleMapsCompatible'', sample_tms), init_state)"
    by (simp add: fetch_layer_def py_first_def dict_get_def monad_defs sample_env_calls
        sample_args_def sample_wmts_def sample_layer_def)
  moreover have "layer_name sample_args = ''osm''"
    by (simp add: sample_args_def)
  ultimately show ?thesis
    by (simp add: before_try_def mapproxy_config_data_def sample_fields sample_restrict
        write_config_def load_config_def seed_config_def monad_defs sample_env_calls)
qed


section \<open>Error handling\<close>

text \<open>
  Claim C1 (as amended). Take an exception that derives from \<^verbatim>\<open>Exception\<close>. Raised before
  the \<^verbatim>\<open>try\<close> block of line 118 (capabilities fetch, templating, writing and loading the
  configuration, coverage restriction), it leaves \<open>main\<close> uncaught, the script logs no
  error, and the process ends with status 1. Raised inside the \<^verbatim>\<open>try\<close> block (creating
  the cache directory, seeding, collecting the tile files, mosaicking), it is caught by the
  handler, logged as \<^verbatim>\<open>Error during process: <message>\<close>, and the process exits with
  status 1. A \<^verbatim>\<open>SystemExit\<close> raised inside the \<^verbatim>\<open>try\<close> block, such as the script's own of
  line 124, does not derive from \<^verbatim>\<open>Exception\<close>: it passes the handler and nothing more is
  logged.
\<close>

theorem exception_exits_nonzero_logged_in_try:
  "(before_try env a init_state = (Inl (Exception e), sb) \<longrightarrow>
      main env a init_state = (Inl (Exception e), sb)
      \<and> exit_status (fst (main env a init_state)) = 1
      \<and> (\<forall>m. LogError m \<notin> set (events sb)))
   \<and> (before_try env a init_state = (Inr ctx, sb)
        \<and> try_body env a ctx sb = (Inl (Exception e), st) \<longrightarrow>
      main env a init_state =
        (Inl (SystemExit 1),
         st\<lparr>events := events st @ [LogError (''Error during process: '' @ str_exn e)]\<rparr>)
      \<and> exit_status (fst (main env a init_state)) = 1)
   \<and> (before_try env a init_state = (Inr ctx, sb)
        \<and> try_body env a ctx sb = (Inl (SystemExit n), st) \<longrightarrow>
      main env a init_state = (Inl (SystemExit n), st))"
proof (intro conjI impI)
  assume b: "before_try env a init_state = (Inl (Exception e), sb)"
  then show "main env a init_state = (Inl (Exception e), sb)"
    by (simp add: main_def monad_defs)
  then show "exit_status (fst (main env a init_state)) = 1"
    by simp
  from before_try_exception_events[OF b] show "\<forall>m. LogError m \<notin> set (events sb)"
    by (auto simp add: init_state_def)
next
  assume t: "before_try env a init_state = (Inr ctx, sb)
             \<and> try_body env a ctx sb = (Inl (Exception e), st)"
  then show "main env a init_state =
        (Inl (SystemExit 1),
         st\<lparr>events := events st @ [LogError (''Error during process: '' @ str_exn e)]\<rparr>)"
    by (simp add: main_def handler_def monad_defs)
  then show "exit_status (fst (main env a init_state)) = 1"
    by simp
next
  assume "before_try env a init_state = (Inr ctx, sb)
          \<and> try_body env a ctx sb = (Inl (SystemExit n), st)"
  then show "main env a init_state = (Inl (SystemExit n), st)"
    by (simp add: main_def monad_defs)
qed

text \<open>Two ways the body of the try block ends: the seeding raises, or the directory is missing.\<close>

lemma try_body_seed_raises:
  assumes "makedirs_error env ''cache_data'' = None" and "seed env d sc = Inl e"
  shows "try_body env a (l, sc, d) s =
           (Inl (Exception e), s\<lparr>events := events s @ [MakeDirs ''cache_data'', SeedCall d]\<rparr>)"
  using assms by (simp add: try_body_def monad_defs)

lemma try_body_no_data:
  assumes "makedirs_error env ''cache_data'' = None"
    and "seed env d sc = Inr fs"
    and "\<not> isdir fs (source_path a)"
  shows "try_body env a (l, sc, d) s =
           (Inl (SystemExit 1),
            s\<lparr>events := events s @
               [MakeDirs ''cache_data'', SeedCall d, IsDir (source_path a),
                LogError (no_data_message a)]\<rparr>)"
  using assms by (simp add: try_body_def monad_defs)

theorem exception_exits_nonzero_logged_in_try_witness:
  "main unreachable_env sample_args init_state =
     (Inl (Exception (Raised ''connection refused'')), init_state) \<and>
   exit_status (fst (main unreachable_env sample_args init_state)) = 1 \<and>
   fst (main seed_fails_env sample_args init_state) = Inl (SystemExit 1) \<and>
   last (events (snd (main seed_fails_env sample_args init_state))) =
     LogError ''Error during process: tile source timed out'' \<and>
   exit_status (fst (main seed_fails_env sample_args init_state)) = 1 \<and>
   fst (main unseeded_env sample_args init_state) = Inl (SystemExit 1) \<and>
   last (events (snd (main unseeded_env sample_args init_state))) =
     LogError ''No data found for layer osm at zoom level 2''"
proof -
  have u: "before_try unreachable_env sample_args init_state =
             (Inl (Exception (Raised ''connection refused'')), init_state)"
    by (simp add: before_try_def fetch_layer_def monad_defs unreachable_env_def sample_env_def)
  let ?fails = "sample_env\<lparr>seed := (\<lambda>directive conf. Inl (Raised ''tile source timed out''))\<rparr>"
  obtain r1 s1 where b1: "before_try ?fails sample_args init_state = (r1, s1)"
    by (cases "before_try ?fails sample_args init_state")
  obtain l1 sc1 d1 where r1: "r1 = Inr (l1, sc1, d1)"
    using sample_before_try[of "seed ?fails"] b1 by simp
  have t1: "try_body ?fails sample_args (l1, sc1, d1) s1 =
              (Inl (Exception (Raised ''tile source timed out'')),
               s1\<lparr>events := events s1 @ [MakeDirs ''cache_data'', SeedCall d1]\<rparr>)"
    by (rule try_body_seed_raises) (simp_all add: sample_env_calls)
  let ?fs = "sample_fs\<lparr>isdir := (\<lambda>p. False)\<rparr>"
  let ?nodata = "sample_env\<lparr>seed := (\<lambda>directive conf. Inr ?fs)\<rparr>"
  obtain r2 s2 where b2: "before_try ?nodata sample_args init_state = (r2, s2)"
    by (cases "before_try ?nodata sample_args init_state")
  obtain l2 sc2 d2 where r2: "r2 = Inr (l2, sc2, d2)"
    using sample_before_try[of "seed ?nodata"] b2 by simp
  have t2: "try_body ?nodata sample_args (l2, sc2, d2) s2 =
              (Inl (SystemExit 1),
               s2\<lparr>events := events s2 @
                  [MakeDirs ''cache_data'', SeedCall d2, IsDir (source_path sample_args),
                   LogError (no_data_message sample_args)]\<rparr>)"
  proof (rule try_body_no_data)
    show "makedirs_error ?nodata ''cache_data'' = None"
      by (simp add: sample_env_calls)
    show "seed ?nodata d2 sc2 = Inr ?fs"
      by (simp add: sample_env_calls)
    show "\<not> isdir ?fs (source_path sample_args)"
      by simp
  qed
  have m: "no_data_message sample_args = ''No data found for layer osm at zoom level 2''"
    by (simp add: no_data_message_def sample_args_def str_int_def)
  note thm1 = exception_exits_nonzero_logged_in_try
    [where env = unreachable_env and a = sample_args
       and e = "Raised ''connection refused''" and sb = init_state]
  note thm2 = exception_exits_nonzero_logged_in_try
    [where env = ?fails and a = sample_args and sb = s1 and ctx = "(l1, sc1, d1)"
       and e = "Raised ''tile source timed out''"
       and st = "s1\<lparr>events := events s1 @ [MakeDirs ''cache_data'', SeedCall d1]\<rparr>"]
  note thm3 = exception_exits_nonzero_logged_in_try
    [where env = ?nodata and a = sample_args and sb = s2 and ctx = "(l2, sc2, d2)" and n = 1
       and st = "s2\<lparr>events := events s2 @
                  [MakeDirs ''cache_data'', SeedCall d2, IsDir (source_path sample_args),
                   LogError (no_data_message sample_args)]\<rparr>"]
  from thm1 u have a1: "main unreachable_env sample_args init_state =
      (Inl (Exception (Raised ''connection refused'')), init_state)
      \<and> exit_status (fst (main unreachable_env sample_args init_state)) = 1"
    by blast
  from thm2 b1 r1 t1 have a2: "main ?fails sample_args init_state =
      (Inl (SystemExit 1),
       s1\<lparr>events := events s1 @ [MakeDirs ''cache_data'', SeedCall d1,
          LogError ''Error during process: tile source timed out'']\<rparr>)"
    by simp
  from thm3 b2 r2 t2 have a3: "main ?nodata sample_args init_state =
      (Inl (SystemExit 1),
       s2\<lparr>events := events s2 @
          [MakeDirs ''cache_data'', SeedCall d2, IsDir (source_path sample_args),
           LogError (no_data_message sample_args)]\<rparr>)"
    by simp
  from a1 a2 a3 m show ?thesis
    by (simp add: seed_fails_env_def unseeded_env_def)
qed

text \<open>
  Claim C1 as stated fails: an exception of the capabilities fetch (line 29) is outside the
  \<^verbatim>\<open>try\<close> block. It leaves \<open>main\<close> uncaught, and the script logs nothing.
\<close>

theorem fetch_exception_not_caught:
  "WebMapTileService unreachable_env (wmts_url sample_args) = Inl (Raised ''connection refused'') \<and>
   main unreachable_env sample_args init_state =
     (Inl (Exception (Raised ''connection refused'')), \<lparr>events = [], outfile = None\<rparr>) \<and>
   fst (main unreachable_env sample_args init_state) \<noteq> Inl (SystemExit 1)"
  by (simp add: main_def before_try_def fetch_layer_def monad_defs unreachable_env_def
      sample_env_def init_state_def)

text \<open>
  Claim C4. When the service's contents do not hold the requested layer name, the only
  thing the process does is log \<^verbatim>\<open>Layer "<name>" not found in provided WMTS service\<close>; it
  exits with status 1. No file is written or read: the event list holds the log entry alone.
\<close>

theorem layer_not_found_exits_before_io:
  assumes "WebMapTileService env (wmts_url a) = Inr wmts"
    and "layer_name a \<notin> dom (contents wmts)"
  shows "main env a init_state =
           (Inl (SystemExit 1),
            \<lparr>events =
               [LogError (''Layer \"'' @ layer_name a @ ''\" not found in provided WMTS service'')],
             outfile = None\<rparr>)
         \<and> exit_status (fst (main env a init_state)) = 1"
proof -
  from assms(2) have "contents wmts (layer_name a) = None" by (simp add: domIff)
  with assms(1) show ?thesis
    by (simp add: main_def before_try_def fetch_layer_def monad_defs init_state_def)
qed

theorem layer_not_found_exits_before_io_witness:
  "layer_name missing_layer_args \<notin> dom (contents sample_wmts) \<and>
   main sample_env missing_layer_args init_state =
     (Inl (SystemExit 1),
      \<lparr>events = [LogError ''Layer \"relief\" not found in provided WMTS service''],
       outfile = None\<rparr>)"
proof -
  have w: "WebMapTileService sample_env (wmts_url missing_layer_args) = Inr sample_wmts"
    by (simp add: sample_env_def)
  have n: "layer_name missing_layer_args \<notin> dom (contents sample_wmts)"
    by (simp add: missing_layer_args_def sample_args_def sample_wmts_def)
  show ?thesis
    using layer_not_found_exits_before_io[OF w n] n
    by (simp add: missing_layer_args_def sample_args_def)
qed

text \<open>
  Claim C5. When the run has reached the try block, the cache directory was made and the
  seeding returned, and the directory
  \<^verbatim>\<open>cache_data/<layer>_cache_<srs without colon>/<zoom>\<close> does not exist, the process logs
  \<^verbatim>\<open>No data found for layer <layer> at zoom level <zoom>\<close> and exits with status 1. The
  event list is complete: no raster is opened or created, and the handler's
  \<^verbatim>\<open>Error during process\<close> entry is absent, because \<^verbatim>\<open>SystemExit\<close> passes the handler.
\<close>

theorem no_data_found_exits:
  assumes "before_try env a init_state = (Inr (wmts_layer, sc, d), s1)"
    and "makedirs_error env ''cache_data'' = None"
    and "seed env d sc = Inr fs"
    and "\<not> isdir fs (''cache_data/'' @ layer_name a @ ''_cache_''
                      @ filter (\<lambda>c. c \<noteq> CHR '':'') (srs a) @ ''/'' @ str_int (zoom_level a))"
  shows "\<exists>data. main env a init_state =
           (Inl (SystemExit 1),
            \<lparr>events =
               [FileWrite (mapproxy_config a) data, FileRead (mapproxy_config a),
                MakeDirs ''cache_data'', SeedCall d,
                IsDir (''cache_data/'' @ layer_name a @ ''_cache_''
                        @ filter (\<lambda>c. c \<noteq> CHR '':'') (srs a) @ ''/'' @ str_int (zoom_level a)),
                LogError (''No data found for layer '' @ layer_name a @ '' at zoom level ''
                           @ str_int (zoom_level a))],
             outfile = None\<rparr>)"
proof -
  from before_try_events[OF assms(1)] obtain data where
    s1: "s1 = \<lparr>events = [FileWrite (mapproxy_config a) data, FileRead (mapproxy_config a)],
               outfile = None\<rparr>"
    by (auto simp add: init_state_def)
  have "main env a init_state =
           (Inl (SystemExit 1),
            s1\<lparr>events := events s1 @
               [MakeDirs ''cache_data'', SeedCall d, IsDir (source_path a),
                LogError (no_data_message a)]\<rparr>)"
    using assms
    by (simp add: main_def try_body_def handler_def monad_defs source_path_def
        replace_char_empty_def)
  with s1 show ?thesis
    by (simp add: source_path_def replace_char_empty_def no_data_message_def)
qed

theorem no_data_found_exits_witness:
  "fst (main unseeded_env sample_args init_state) = Inl (SystemExit 1) \<and>
   drop 2 (events (snd (main unseeded_env sample_args init_state))) =
     [MakeDirs ''cache_data'', SeedCall \<lparr>seed_only = [''osm''], concurrency = 1\<rparr>,
      IsDir ''cache_data/osm_cache_EPSG3857/2'',
      LogError ''No data found for layer osm at zoom level 2'']"
proof -
  let ?fs = "sample_fs\<lparr>isdir := (\<lambda>p. False)\<rparr>"
  let ?env = "sample_env\<lparr>seed := (\<lambda>directive conf. Inr ?fs)\<rparr>"
  obtain r s1 where b: "before_try ?env sample_args init_state = (r, s1)"
    by (cases "before_try ?env sample_args init_state")
  obtain l sc d where r: "r = Inr (l, sc, d)" and d: "d = \<lparr>seed_only = [''osm''], concurrency = 1\<rparr>"
    using sample_before_try[of "seed ?env"] b by simp
  have m: "makedirs_error ?env ''cache_data'' = None" and sd: "seed ?env d sc = Inr ?fs"
    by (simp_all add: sample_env_calls)
  have n: "\<not> isdir ?fs (''cache_data/'' @ layer_name sample_args @ ''_cache_''
              @ filter (\<lambda>c. c \<noteq> CHR '':'') (srs sample_args) @ ''/''
              @ str_int (zoom_level sample_args))"
    by simp
  show ?thesis
    using no_data_found_exits[OF b[unfolded r] m sd n] d
    by (auto simp add: unseeded_env_def sample_args_def str_int_def)
qed

text \<open>
  Claim C10. When the directory exists and no file under it ends in the expected extension,
  \<open>input_file_list\<close> is empty, \<^verbatim>\<open>input_file_list[0]\<close> raises \<^verbatim>\<open>IndexError\<close>, and the handler
  logs \<^verbatim>\<open>Error during process: list index out of range\<close> before the exit with status 1.
  The \<^verbatim>\<open>No data found\<close> entry is not logged, and no raster is opened.
\<close>

theorem empty_cache_directory_hits_handler:
  assumes "before_try env a init_state = (Inr (wmts_layer, sc, d), s1)"
    and "makedirs_error env ''cache_data'' = None"
    and "seed env d sc = Inr fs"
    and "isdir fs (source_path a)"
    and "format_extension wmts_layer = Inr ext"
    and "\<forall>(root, dirs, files) \<in> set (walk fs (source_path a)).
           \<forall>file \<in> set files. \<not> endswith file (''.'' @ ext)"
  shows "collect_files wmts_layer (walk fs (source_path a)) [] = Inr [] \<and>
         (\<exists>data. main env a init_state =
           (Inl (SystemExit 1),
            \<lparr>events =
               [FileWrite (mapproxy_config a) data, FileRead (mapproxy_config a),
                MakeDirs ''cache_data'', SeedCall d, IsDir (source_path a),
                Walk (source_path a),
                LogError ''Error during process: list index out of range''],
             outfile = None\<rparr>))"
proof -
  from before_try_events[OF assms(1)] obtain data where
    s1: "s1 = \<lparr>events = [FileWrite (mapproxy_config a) data, FileRead (mapproxy_config a)],
               outfile = None\<rparr>"
    by (auto simp add: init_state_def)
  have c: "collect_files wmts_layer (walk fs (source_path a)) [] = Inr []"
    using assms(5,6) by (rule collect_files_none)
  with assms(1-4) have "main env a init_state =
      (Inl (SystemExit 1),
       s1\<lparr>events := events s1 @
          [MakeDirs ''cache_data'', SeedCall d, IsDir (source_path a), Walk (source_path a),
           LogError ''Error during process: list index out of range'']\<rparr>)"
    by (simp add: main_def try_body_def build_mosaic_def py_first_def handler_def monad_defs)
  with s1 c show ?thesis by simp
qed

theorem empty_cache_directory_hits_handler_witness:
  "fst (main other_files_env sample_args init_state) = Inl (SystemExit 1) \<and>
   drop 2 (events (snd (main other_files_env sample_args init_state))) =
     [MakeDirs ''cache_data'', SeedCall \<lparr>seed_only = [''osm''], concurrency = 1\<rparr>,
      IsDir ''cache_data/osm_cache_EPSG3857/2'', Walk ''cache_data/osm_cache_EPSG3857/2'',
      LogError ''Error during process: list index out of range'']"
proof -
  let ?fs = "sample_fs\<lparr>walk := (\<lambda>p. [(p, [''000''], []), (p @ ''/000'', [], [''notes.txt''])])\<rparr>"
  let ?env = "sample_env\<lparr>seed := (\<lambda>directive conf. Inr ?fs)\<rparr>"
  obtain r s1 where b: "before_try ?env sample_args init_state = (r, s1)"
    by (cases "before_try ?env sample_args init_state")
  obtain sc d where r: "r = Inr (sample_layer, sc, d)"
    and d: "d = \<lparr>seed_only = [''osm''], concurrency = 1\<rparr>"
    using sample_before_try[of "seed ?env"] b by simp
  have p: "source_path sample_args = ''cache_data/osm_cache_EPSG3857/2''"
    by (simp add: source_path_def sample_args_def replace_char_empty_def str_int_def)
  have m: "makedirs_error ?env ''cache_data'' = None" and sd: "seed ?env d sc = Inr ?fs"
    by (simp_all add: sample_env_calls)
  have i: "isdir ?fs (source_path sample_args)"
    by (simp add: p sample_fs_def sample_dir_def)
  have e: "format_extension sample_layer = Inr ''png''"
    by (simp add: format_extension_def py_first_def sample_layer_def)
  have n: "\<forall>(root, dirs, files) \<in> set (walk ?fs (source_path sample_args)).
             \<forall>file \<in> set files. \<not> endswith file (''.'' @ ''png'')"
    by (simp add: endswith_def)
  show ?thesis
    using empty_cache_directory_hits_handler[OF b[unfolded r] m sd i e n] d p
    by (auto simp add: other_files_env_def)
qed

section \<open>The synthesized configuration\<close>


text \<open>
  Claim C2, evaluated on the sample service. The layer declares the tile matrix set
  \<^verbatim>\<open>GoogleMapsCompatible\<close>; the object stored under that identifier has the title
  \<^verbatim>\<open>Google Maps Compatible for the World\<close>. Line 83 passes the title as
  \<^verbatim>\<open>tile_matrix_set_id\<close>, so the key of the grids section is the title, not the identifier
  the metadata fetch returned.
\<close>

theorem grids_key_is_title_not_identifier:
  "fst (fetch_layer sample_env sample_args init_state) =
     Inr (sample_layer, ''GoogleMapsCompatible'', sample_tms) \<and>
   map_sum id grids_key (mapproxy_config_fields sample_env sample_args sample_layer sample_tms) =
     Inr ''Google Maps Compatible for the World'' \<and>
   map_sum id grids_key (mapproxy_config_fields sample_env sample_args sample_layer sample_tms) \<noteq>
     Inr ''GoogleMapsCompatible''"
proof -
  have "fetch_layer sample_env sample_args init_state =
          (Inr (sample_layer, ''GoogleMapsCompatible'', sample_tms), init_state)"
    by (simp add: fetch_layer_def py_first_def dict_get_def monad_defs sample_env_def
        sample_args_def sample_wmts_def sample_layer_def)
  moreover have "map_sum id grids_key
      (mapproxy_config_fields sample_env sample_args sample_layer sample_tms) =
      Inr ''Google Maps Compatible for the World''"
    using sample_fields[of "seed sample_env"] by (simp add: grids_key_def)
  ultimately show ?thesis by simp
qed

text \<open>
  Claim C3, evaluated on the sample run. The directive has \<open>concurrency\<close> 1, and its
  \<open>seed_only\<close> entry is the bare layer name \<^verbatim>\<open>osm\<close>, while the one cache of the configuration
  (line 52) and the cache directory read back at line 121 are named \<^verbatim>\<open>osm_cache\<close>.
\<close>

theorem seed_directive_names_layer_not_cache:
  "seed_config sample_args = \<lparr>seed_only = [''osm''], concurrency = 1\<rparr> \<and>
   map_sum id cache_key (mapproxy_config_fields sample_env sample_args sample_layer sample_tms) =
     Inr ''osm_cache'' \<and>
   ''osm_cache'' \<notin> set (seed_only (seed_config sample_args)) \<and>
   source_path sample_args = ''cache_data/osm_cache_EPSG3857/2''"
proof -
  have "map_sum id cache_key
      (mapproxy_config_fields sample_env sample_args sample_layer sample_tms) = Inr ''osm_cache''"
    using sample_fields[of "seed sample_env"] by (simp add: cache_key_def)
  then show ?thesis
    by (simp add: seed_config_def sample_args_def source_path_def replace_char_empty_def
        str_int_def)
qed





section \<open>Coverage restriction\<close>

text \<open>
  Claim C7 (as amended). When the cache entry, its grid and the two library calls are
  there, the coverage installed into the loaded configuration is what \<^verbatim>\<open>merge_coverage\<close>
  returns for the prior coverage, the one coverage that \<^verbatim>\<open>extent_to_grid_coverage\<close> computes
  from the tile matrix set's own WGS84 bounding box, the grid and the zoom level, and the
  mode \<^verbatim>\<open>intersect\<close>. The tag carries the target SRS, the requested zoom as both minimum
  and maximum level, and \<^verbatim>\<open>dry_run = False\<close>; its cache name is the name the seed directive
  carries. The user's bounding box is not an argument of either call.
\<close>

theorem coverage_restricted_to_tms_bbox:
  assumes "caches sc (layer_name a) = Some cache"
    and "cache ''grid'' = Some grid_conf"
    and "TileGrid env grid_conf = Inr grid"
    and "extent_to_grid_coverage env (bboxWGS84 obj) grid (zoom_level a) = Inr cov"
    and "merge_coverage env (coverage sc) [cov] ''intersect'' (coverage_info a) = Inr merged"
  shows "restrict_coverage env a obj sc s = (Inr (sc\<lparr>coverage := merged\<rparr>), s)
         \<and> ci_srs (coverage_info a) = srs a
         \<and> ci_min_level (coverage_info a) = zoom_level a
         \<and> ci_max_level (coverage_info a) = zoom_level a
         \<and> ci_dry_run (coverage_info a) = False
         \<and> [ci_cache_name (coverage_info a)] = seed_only (seed_config a)"
  using assms
  by (simp add: restrict_coverage_def dict_get_def monad_defs coverage_info_def seed_config_def)

theorem coverage_restricted_to_tms_bbox_witness:
  "map_sum id coverage
     (fst (restrict_coverage sample_env sample_args sample_tms sample_conf init_state)) =
     Inr (Merged NoCoverage
            [Extent (''-180.0'', ''-85.05'', ''180.0'', ''85.05'')
               (Grid (GridConf ''GoogleMapsCompatible'')) 2]
            ''intersect''
            \<lparr>ci_cache_name = ''osm'', ci_srs = ''EPSG:3857'', ci_min_level = 2,
             ci_max_level = 2, ci_dry_run = False\<rparr>)"
proof -
  have 1: "caches sample_conf (layer_name sample_args) =
             Some [''grid'' \<mapsto> GridConf ''GoogleMapsCompatible'']"
    by (simp add: sample_conf_def sample_args_def)
  have 2: "[''grid'' \<mapsto> GridConf ''GoogleMapsCompatible''] ''grid'' =
             Some (GridConf ''GoogleMapsCompatible'')"
    by simp
  have 3: "TileGrid sample_env (GridConf ''GoogleMapsCompatible'') =
             Inr (Grid (GridConf ''GoogleMapsCompatible''))"
    by (simp add: sample_env_def)
  have 4: "extent_to_grid_coverage sample_env (bboxWGS84 sample_tms)
             (Grid (GridConf ''GoogleMapsCompatible'')) (zoom_level sample_args) =
           Inr (Extent (''-180.0'', ''-85.05'', ''180.0'', ''85.05'')
                  (Grid (GridConf ''GoogleMapsCompatible'')) 2)"
    by (simp add: sample_env_def sample_tms_def sample_args_def)
  have 5: "merge_coverage sample_env (coverage sample_conf)
             [Extent (''-180.0'', ''-85.05'', ''180.0'', ''85.05'')
                (Grid (GridConf ''GoogleMapsCompatible'')) 2]
             ''intersect'' (coverage_info sample_args) =
           Inr (Merged NoCoverage
                  [Extent (''-180.0'', ''-85.05'', ''180.0'', ''85.05'')
                     (Grid (GridConf ''GoogleMapsCompatible'')) 2]
                  ''intersect''
                  \<lparr>ci_cache_name = ''osm'', ci_srs = ''EPSG:3857'', ci_min_level = 2,
                   ci_max_level = 2, ci_dry_run = False\<rparr>)"
    by (simp add: sample_env_def sample_conf_def coverage_info_def sample_args_def)
  show ?thesis
    using coverage_restricted_to_tms_bbox[OF 1 2 3 4 5, of init_state] by simp
qed

text \<open>
  Claim C7 as stated fails: on the sample run the user's bounding box is
  \<^verbatim>\<open>(16.0, 48.0, 16.5, 48.5)\<close>, and the coverage installed is not the one computed from it.
\<close>

theorem coverage_ignores_user_bbox:
  "bbox sample_args = (''16.0'', ''48.0'', ''16.5'', ''48.5'') \<and>
   map_sum id coverage
     (fst (restrict_coverage sample_env sample_args sample_tms sample_conf init_state)) \<noteq>
     Inr (Merged NoCoverage
            [Extent (bbox sample_args) (Grid (GridConf ''GoogleMapsCompatible'')) 2]
            ''intersect'' (coverage_info sample_args))"
  using sample_restrict[of "seed sample_env" init_state]
  by (simp add: sample_args_def)

section \<open>Mosaicking\<close>

text \<open>
  Claim C8. Let the mosaic loop return. Take a pixel \<open>p\<close> of the output and the tile \<open>f\<close>
  that is the last one in traversal order with a block window over \<open>p\<close> (no tile after it
  has one), and let \<open>w\<close> be the last such window of \<open>f\<close>. Then the output holds at \<open>p\<close> the
  value of the block read for \<open>w\<close>, whatever the tiles before \<open>f\<close> wrote there: the later
  tile overwrites, nothing is blended.
\<close>

theorem overlap_last_tile_wins:
  assumes "mosaic_files fs dst m files s = (Inr (), s')"
    and "outfile s = Some r0"
    and "files = pre @ f # post"
    and "file_blocks fs dst f = b1 @ (w, arr) # b2"
    and "inside w p"
    and "\<forall>(w', arr') \<in> set b2. \<not> inside w' p"
    and "\<forall>(w', arr') \<in> set (tile_blocks fs dst post). \<not> inside w' p"
  shows "\<exists>r. outfile s' = Some r \<and>
           pixels r p = Some (arr (fst p - row_off w, snd p - col_off w))"
proof -
  have "tile_blocks fs dst files =
          (tile_blocks fs dst pre @ b1) @ (w, arr) # (b2 @ tile_blocks fs dst post)"
    using assms(3,4) by (simp add: tile_blocks_def)
  moreover have "\<forall>(w', arr') \<in> set (b2 @ tile_blocks fs dst post). \<not> inside w' p"
    using assms(6,7) by auto
  ultimately have "pixels (write_blocks (tile_blocks fs dst files) r0) p =
      Some (arr (fst p - row_off w, snd p - col_off w))"
    using write_blocks_last[OF assms(5), of "b2 @ tile_blocks fs dst post"] by simp
  with mosaic_files_success[OF assms(1)] assms(2) show ?thesis by simp
qed

lemma sample_file_blocks:
  "file_blocks sample_fs ''EPSG:3857'' (sample_dir @ ''/000/1.png'') =
     [(whole_tile, \<lambda>p. ''first'')]"
  "file_blocks sample_fs ''EPSG:3857'' (sample_dir @ ''/000/2.png'') =
     [(whole_tile, \<lambda>p. ''second'')]"
  by (simp_all add: file_blocks_def sample_fs_def sample_tile_def)

lemma sample_mosaic_files:
  "fst (mosaic_files sample_fs ''EPSG:3857'' sample_profile sample_files blank_state) = Inr ()"
  by (simp add: sample_files_def sample_fs_def sample_tile_def monad_defs mosaic_write_def)

theorem overlap_last_tile_wins_witness:
  "inside whole_tile (3, 4) \<and>
   tile_blocks sample_fs ''EPSG:3857'' sample_files =
     [(whole_tile, \<lambda>p. ''first''), (whole_tile, \<lambda>p. ''second'')] \<and>
   (\<exists>r. outfile (snd (mosaic_files sample_fs ''EPSG:3857'' sample_profile sample_files
                        blank_state)) = Some r \<and>
        pixels r (3, 4) = Some ''second'')"
proof -
  let ?run = "mosaic_files sample_fs ''EPSG:3857'' sample_profile sample_files blank_state"
  have 1: "?run = (Inr (), snd ?run)"
    using sample_mosaic_files by (simp add: prod_eq_iff)
  have 2: "outfile blank_state = Some \<lparr>rprofile = sample_profile, pixels = (\<lambda>_. None)\<rparr>"
    by (simp add: blank_state_def)
  have 3: "sample_files = [sample_dir @ ''/000/1.png''] @ (sample_dir @ ''/000/2.png'') # []"
    by (simp add: sample_files_def)
  have 4: "file_blocks sample_fs ''EPSG:3857'' (sample_dir @ ''/000/2.png'') =
             [] @ (whole_tile, \<lambda>p. ''second'') # []"
    by (simp add: sample_file_blocks)
  have 5: "inside whole_tile (3, 4)"
    by (simp add: inside_def whole_tile_def)
  have 6: "\<forall>(w', arr') \<in> set ([] :: (window \<times> string block) list). \<not> inside w' (3, 4)"
    by simp
  have 7: "\<forall>(w', arr') \<in> set (tile_blocks sample_fs ''EPSG:3857'' []). \<not> inside w' (3, 4)"
    by (simp add: tile_blocks_def)
  have 8: "tile_blocks sample_fs ''EPSG:3857'' sample_files =
             [(whole_tile, \<lambda>p. ''first''), (whole_tile, \<lambda>p. ''second'')]"
    by (simp add: tile_blocks_def sample_files_def sample_file_blocks)
  show ?thesis
    using overlap_last_tile_wins[OF 1 2 3 4 5 6 7] 5 8 by simp
qed

text \<open>
  Claim C9. For a non-empty list of collected files whose first file opens and for which
  the output raster can be created, the output raster exists after the mosaic stage,
  however the stage ends, and its profile is the \<^verbatim>\<open>meta\<close> of the first collected file:
  width, height, band count, data type and the other keys alike. No window write changes it.
\<close>

theorem output_profile_is_first_tile_profile:
  assumes "input_file_list = first_file # rest"
    and "rasterio_open fs first_file = Inr src"
    and "create_error fs (output_file a) (meta src) = None"
  shows "\<exists>r. outfile (snd (build_mosaic fs a input_file_list s)) = Some r
             \<and> rprofile r = meta src
             \<and> width (rprofile r) = width (meta src)
             \<and> height (rprofile r) = height (meta src)
             \<and> count (rprofile r) = count (meta src)
             \<and> dtype (rprofile r) = dtype (meta src)"
proof -
  let ?s1 = "s\<lparr>events := events s @ [RasterOpen first_file, RasterCreate (output_file a)],
               outfile := Some \<lparr>rprofile = meta src, pixels = (\<lambda>_. None)\<rparr>\<rparr>"
  have "build_mosaic fs a input_file_list s =
          mosaic_files fs (srs a) (meta src) input_file_list ?s1"
    using assms by (simp add: build_mosaic_def py_first_def create_raster_def monad_defs)
  moreover have
    "map_option rprofile
       (outfile (snd (mosaic_files fs (srs a) (meta src) input_file_list ?s1))) =
     Some (meta src)"
    by (simp add: mosaic_files_profile)
  ultimately show ?thesis by auto
qed

theorem output_profile_is_first_tile_profile_witness:
  "\<exists>r. outfile (snd (build_mosaic sample_fs sample_args sample_files init_state)) = Some r
        \<and> rprofile r = sample_profile \<and> width (rprofile r) = 256 \<and> height (rprofile r) = 256
        \<and> count (rprofile r) = 3 \<and> dtype (rprofile r) = ''uint8''"
proof -
  have 1: "sample_files = (sample_dir @ ''/000/1.png'') # [sample_dir @ ''/000/2.png'']"
    by (simp add: sample_files_def)
  have 2: "rasterio_open sample_fs (sample_dir @ ''/000/1.png'') = Inr (sample_tile ''first'')"
    by (simp add: sample_fs_def)
  have 3: "create_error sample_fs (output_file sample_args) (meta (sample_tile ''first'')) = None"
    by (simp add: sample_fs_def)
  show ?thesis
    using output_profile_is_first_tile_profile[OF 1 2 3, where s = init_state]
    by (simp add: sample_tile_def sample_profile_def)
qed

end
